theory Spec2Isabelle
  imports Complex_Main "HOL-Library.Sublist"
begin

section \<open>The expense tracker screen\<close>

text \<open>
  The screen is one React component, \<^verbatim>\<open>ExpenseTracker\<close>, present twice in the
  repository (a TypeScript and a JavaScript copy with the same function bodies). Its
  functions read and write the component state, call \<^verbatim>\<open>fetch\<close> and show alerts.
  The embedding passes the state explicitly, takes what the network answers as an
  argument, and returns the effects (requests sent, alerts shown) next to the new state.
\<close>

subsection \<open>What the JavaScript runtime provides\<close>

text \<open>
  A JavaScript number is an IEEE double. Its arithmetic is not defined here: the
  operations of the runtime that the component and \<^verbatim>\<open>JSON.stringify\<close> use on
  numbers, and \<^verbatim>\<open>String.prototype.trim\<close>, are the fields of a record that every function of the
  model takes as its first argument. One instance (exact decimals) is defined further
  down to run the model on concrete inputs.
\<close>

record 'n runtime =
  num_zero :: 'n                           \<comment> \<open>the literal \<^verbatim>\<open>0\<close>\<close>
  num_plus :: "'n \<Rightarrow> 'n \<Rightarrow> 'n"              \<comment> \<open>\<^verbatim>\<open>a + b\<close> on numbers\<close>
  num_strict_eq :: "'n \<Rightarrow> 'n \<Rightarrow> bool"       \<comment> \<open>\<^verbatim>\<open>a === b\<close> on numbers\<close>
  parseFloat :: "string \<Rightarrow> 'n"
  isNaN :: "'n \<Rightarrow> bool"
  num_finite :: "'n \<Rightarrow> bool"              \<comment> \<open>neither not-a-number nor an infinity\<close>
  trim :: "string \<Rightarrow> string"

subsection \<open>Data\<close>

text \<open>\<^verbatim>\<open>id: number | string\<close>\<close>

datatype 'n ident = IdNumber 'n | IdString string

text \<open>
  \<^verbatim>\<open>interface Expense { id; amount; description; category; date }\<close>. The fields
  carry the prefix \<open>expense_\<close> because the component state has variables called
  \<^verbatim>\<open>amount\<close>, \<^verbatim>\<open>description\<close> and \<^verbatim>\<open>category\<close> as well.
\<close>

record 'n expense =
  expense_id :: "'n ident"
  expense_amount :: 'n
  expense_description :: string
  expense_category :: string
  expense_date :: string

definition API_BASE_URL :: string where
  "API_BASE_URL = ''https://expense-tracker-h030.onrender.com''"

definition categories :: "string list" where
  "categories =
     [''Food'', ''Transportation'', ''Entertainment'', ''Shopping'', ''Bills'', ''Health'', ''Other'']"

text \<open>The seven \<^verbatim>\<open>useState\<close> variables of the component.\<close>

record 'n state =
  expenses :: "'n expense list"
  amount :: string
  description :: string
  category :: string
  showAddModal :: bool
  selectedFilter :: string
  loading :: bool

text \<open>The state at mount: the initial values given to \<^verbatim>\<open>useState\<close>.\<close>

definition initial_state :: "'n state" where
  "initial_state =
     \<lparr>expenses = [], amount = [], description = [], category = ''Food'',
      showAddModal = False, selectedFilter = ''All'', loading = False\<rparr>"

subsection \<open>Projections: \<^verbatim>\<open>getFilteredExpenses\<close>, \<^verbatim>\<open>getTotalAmount\<close>\<close>

text \<open>
  \<^verbatim>\<open>if (selectedFilter === 'All') return expenses;
  return expenses.filter(expense => expense.category === selectedFilter);\<close>
\<close>

definition getFilteredExpenses :: "'n state \<Rightarrow> 'n expense list" where
  "getFilteredExpenses st =
     (if selectedFilter st = ''All'' then expenses st
      else filter (\<lambda>expense. expense_category expense = selectedFilter st) (expenses st))"

text \<open>
  \<^verbatim>\<open>filtered.reduce((total, expense) => total + expense.amount, 0)\<close>: a fold from
  the left, starting at \<^verbatim>\<open>0\<close>.
\<close>

definition getTotalAmount :: "'n runtime \<Rightarrow> 'n state \<Rightarrow> 'n" where
  "getTotalAmount R st =
     (let filtered = getFilteredExpenses st
      in foldl (\<lambda>total expense. num_plus R total (expense_amount expense)) (num_zero R) filtered)"

subsection \<open>Effects and what the network answers\<close>

text \<open>The object \<^verbatim>\<open>newExpense\<close> built in \<^verbatim>\<open>addExpense\<close>.\<close>

record 'n new_expense =
  new_amount :: 'n
  new_description :: string
  new_category :: string
  new_date :: string

text \<open>
  A request body is JSON text. It is represented by the JSON value the text denotes,
  the members of an object in the order they are written.
\<close>

datatype 'n json =
  JNull
| JNumber 'n
| JString string
| JObject "(string \<times> 'n json) list"

text \<open>
  \<^verbatim>\<open>JSON.stringify(newExpense)\<close>: the four properties in the order of the object
  literal. A string is written as a string. A number is written as a number when it is
  finite; not-a-number and the infinities are written \<^verbatim>\<open>null\<close>.
\<close>

definition JSON_stringify :: "'n runtime \<Rightarrow> 'n new_expense \<Rightarrow> 'n json" where
  "JSON_stringify R newExpense =
     JObject
       [(''amount'',
           if num_finite R (new_amount newExpense) then JNumber (new_amount newExpense)
           else JNull),
        (''description'', JString (new_description newExpense)),
        (''category'', JString (new_category newExpense)),
        (''date'', JString (new_date newExpense))]"

text \<open>
  The three calls of \<^verbatim>\<open>fetch\<close>: a GET of a URL, a POST of a URL with headers
  \<^verbatim>\<open>Content-Type: application/json\<close> and the given body, and a DELETE of the URL
  made of the given prefix followed by the id.
\<close>

datatype 'n request =
  GET string
| POST string "'n json"
| DELETE string "'n ident"

text \<open>
  What the user and the server see of a call: requests, plain alerts
  (\<^verbatim>\<open>Alert.alert(title, message)\<close>) and the alert with buttons of \<^verbatim>\<open>deleteExpense\<close>.
\<close>

datatype 'n effect =
  Fetch "'n request"
| Alert string string
| AlertButtons string string "string list"

text \<open>
  The answer to a request, as far as the code looks at it. Either the promise of
  \<^verbatim>\<open>fetch\<close> rejects with an error carrying a message, or it resolves to a response
  with its \<^verbatim>\<open>ok\<close> flag (true for a 2xx status) and the result of
  \<^verbatim>\<open>response.json()\<close>, which throws an error (\<open>Inl\<close> its message) or returns the
  parsed value.
\<close>

datatype 'a fetch_result =
  NetworkError string
| HttpResponse bool "string + 'a"

text \<open>The button pressed on the alert of \<^verbatim>\<open>deleteExpense\<close>, if any.\<close>

datatype press = PressCancel | PressDelete | Dismissed

subsection \<open>Operations: \<^verbatim>\<open>fetchExpenses\<close>, \<^verbatim>\<open>addExpense\<close>, \<^verbatim>\<open>deleteExpense\<close>\<close>

text \<open>
  Each asynchronous function has the shape
  \<^verbatim>\<open>setLoading(true); try { ... } catch (error) { Alert.alert('Error', error.message) }
  finally { setLoading(false) }\<close>.
  The \<^verbatim>\<open>try\<close> block is a function to \<open>string + state\<close>, \<open>Inl\<close> the message of
  the error thrown; \<open>catch_finally\<close> is the rest.
\<close>

definition catch_finally :: "'n state \<Rightarrow> string + 'n state \<Rightarrow> 'n state \<times> 'n effect list" where
  "catch_finally st tried =
     (case tried of
        Inl message \<Rightarrow> (st\<lparr>loading := False\<rparr>, [Alert ''Error'' message])
      | Inr st' \<Rightarrow> (st'\<lparr>loading := False\<rparr>, []))"

definition fetchExpenses_try :: "'n expense list fetch_result \<Rightarrow> 'n state \<Rightarrow> string + 'n state" where
  "fetchExpenses_try response st =
     (case response of
        NetworkError message \<Rightarrow> Inl message
      | HttpResponse ok body \<Rightarrow>
          if \<not> ok then Inl ''Failed to fetch expenses''
          else (case body of
                  Inl message \<Rightarrow> Inl message
                | Inr data \<Rightarrow> Inr (st\<lparr>expenses := data\<rparr>)))"

definition fetchExpenses :: "'n expense list fetch_result \<Rightarrow> 'n state \<Rightarrow> 'n state \<times> 'n effect list" where
  "fetchExpenses response st =
     (let st1 = st\<lparr>loading := True\<rparr>;
          (st2, shown) = catch_finally st1 (fetchExpenses_try response st1)
      in (st2, Fetch (GET (API_BASE_URL @ ''/expenses'')) # shown))"

definition addExpense_try :: "'n expense fetch_result \<Rightarrow> 'n state \<Rightarrow> string + 'n state" where
  "addExpense_try response st =
     (case response of
        NetworkError message \<Rightarrow> Inl message
      | HttpResponse ok body \<Rightarrow>
          if \<not> ok then Inl ''Failed to add expense''
          else (case body of
                  Inl message \<Rightarrow> Inl message
                | Inr savedExpense \<Rightarrow>
                    Inr (st\<lparr>expenses := savedExpense # expenses st, amount := [],
                            description := [], category := ''Food'', showAddModal := False\<rparr>)))"

text \<open>
  \<open>now\<close> is \<^verbatim>\<open>new Date().toISOString()\<close> at the time of the call. An empty string is
  the only falsy string, so \<^verbatim>\<open>!amount\<close> is \<open>amount st = []\<close>.
\<close>

definition addExpense ::
  "'n runtime \<Rightarrow> string \<Rightarrow> 'n expense fetch_result \<Rightarrow> 'n state \<Rightarrow> 'n state \<times> 'n effect list" where
  "addExpense R now response st =
     (if amount st = [] \<or> description st = []
        then (st, [Alert ''Error'' ''Please fill in all fields''])
      else if isNaN R (parseFloat R (amount st))
        then (st, [Alert ''Error'' ''Please enter a valid amount''])
      else
        let newExpense =
              \<lparr>new_amount = parseFloat R (amount st),
               new_description = trim R (description st),
               new_category = category st,
               new_date = now\<rparr>;
            st1 = st\<lparr>loading := True\<rparr>;
            (st2, shown) = catch_finally st1 (addExpense_try response st1)
        in (st2, Fetch (POST (API_BASE_URL @ ''/expenses'') (JSON_stringify R newExpense)) # shown))"

text \<open>
  \<^verbatim>\<open>expense.id !== id\<close> on values of type \<^verbatim>\<open>number | string\<close>: values of different
  types are never strictly equal, strings are compared by content, numbers by the
  runtime.
\<close>

fun strict_eq :: "'n runtime \<Rightarrow> 'n ident \<Rightarrow> 'n ident \<Rightarrow> bool" where
  "strict_eq R (IdNumber a) (IdNumber b) = num_strict_eq R a b"
| "strict_eq R (IdString a) (IdString b) = (a = b)"
| "strict_eq R _ _ = False"

definition deleteExpenseAPI_try ::
  "'n runtime \<Rightarrow> 'a fetch_result \<Rightarrow> 'n ident \<Rightarrow> 'n state \<Rightarrow> string + 'n state" where
  "deleteExpenseAPI_try R response ident st =
     (case response of
        NetworkError message \<Rightarrow> Inl message
      | HttpResponse ok body \<Rightarrow>
          if \<not> ok then Inl ''Failed to delete expense''
          else Inr (st\<lparr>expenses :=
                         filter (\<lambda>expense. \<not> strict_eq R (expense_id expense) ident) (expenses st)\<rparr>))"

definition deleteExpenseAPI ::
  "'n runtime \<Rightarrow> 'a fetch_result \<Rightarrow> 'n ident \<Rightarrow> 'n state \<Rightarrow> 'n state \<times> 'n effect list" where
  "deleteExpenseAPI R response ident st =
     (let st1 = st\<lparr>loading := True\<rparr>;
          (st2, shown) = catch_finally st1 (deleteExpenseAPI_try R response ident st1)
      in (st2, Fetch (DELETE (API_BASE_URL @ ''/expenses/'') ident) # shown))"

text \<open>
  \<^verbatim>\<open>deleteExpense\<close> shows an alert with the buttons Cancel and Delete; only the
  handler of Delete calls \<^verbatim>\<open>deleteExpenseAPI\<close>.
\<close>

definition deleteExpense ::
  "'n runtime \<Rightarrow> press \<Rightarrow> 'a fetch_result \<Rightarrow> 'n ident \<Rightarrow> 'n state \<Rightarrow> 'n state \<times> 'n effect list" where
  "deleteExpense R pressed response ident st =
     (let asked = AlertButtons ''Delete Expense''
                    ''Are you sure you want to delete this expense?'' [''Cancel'', ''Delete'']
      in case pressed of
           PressDelete \<Rightarrow>
             (let (st', done) = deleteExpenseAPI R response ident st in (st', asked # done))
         | _ \<Rightarrow> (st, [asked]))"

subsection \<open>\<^verbatim>\<open>getCategoryIcon\<close>\<close>

text \<open>
  The glyphs are written as the bytes of their UTF-8 encoding, as the source file stores
  them: U+1F354, U+1F68C, U+1F3AC, U+1F6CD U+FE0F, U+1F9FE, U+1F48A, U+1F4E6.
\<close>

definition icons :: "(string \<times> string) list" where
  "icons =
     [(''Food'', [CHR 0xF0, CHR 0x9F, CHR 0x8D, CHR 0x94]),
      (''Transportation'', [CHR 0xF0, CHR 0x9F, CHR 0x9A, CHR 0x8C]),
      (''Entertainment'', [CHR 0xF0, CHR 0x9F, CHR 0x8E, CHR 0xAC]),
      (''Shopping'', [CHR 0xF0, CHR 0x9F, CHR 0x9B, CHR 0x8D, CHR 0xEF, CHR 0xB8, CHR 0x8F]),
      (''Bills'', [CHR 0xF0, CHR 0x9F, CHR 0xA7, CHR 0xBE]),
      (''Health'', [CHR 0xF0, CHR 0x9F, CHR 0x92, CHR 0x8A]),
      (''Other'', [CHR 0xF0, CHR 0x9F, CHR 0x93, CHR 0xA6])]"

text \<open>The literal on the right of \<^verbatim>\<open>||\<close>: U+1F4E6.\<close>

definition default_icon :: string where
  "default_icon = [CHR 0xF0, CHR 0x9F, CHR 0x93, CHR 0xA6]"

text \<open>
  \<^verbatim>\<open>icons\<close> is an object literal, so its prototype is \<^verbatim>\<open>Object.prototype\<close>, and
  \<^verbatim>\<open>icons[category]\<close> is a property read: it finds an own property, else a property
  of the prototype, else \<^verbatim>\<open>undefined\<close>. The properties of \<^verbatim>\<open>Object.prototype\<close> in
  ECMAScript are listed below; their values are functions, and for \<^verbatim>\<open>__proto__\<close> the
  prototype object itself.
\<close>

definition Object_prototype :: "string list" where
  "Object_prototype =
     [''constructor'', ''hasOwnProperty'', ''isPrototypeOf'', ''propertyIsEnumerable'',
      ''toLocaleString'', ''toString'', ''valueOf'', ''__proto__'',
      ''__defineGetter__'', ''__defineSetter__'', ''__lookupGetter__'', ''__lookupSetter__'']"

text \<open>
  The values such a read can give: \<^verbatim>\<open>undefined\<close>, a string, or the function or object
  found on the prototype under the given name.
\<close>

datatype js_value = Undefined | Str string | Inherited string

fun truthy :: "js_value \<Rightarrow> bool" where
  "truthy Undefined = False"
| "truthy (Str s) = (s \<noteq> [])"
| "truthy (Inherited name) = True"

definition icons_get :: "string \<Rightarrow> js_value" where
  "icons_get key =
     (case map_of icons key of
        Some glyph \<Rightarrow> Str glyph
      | None \<Rightarrow> if key \<in> set Object_prototype then Inherited key else Undefined)"

text \<open>\<^verbatim>\<open>return icons[category] || default\<close>\<close>

definition getCategoryIcon :: "string \<Rightarrow> js_value" where
  "getCategoryIcon cat =
     (let found = icons_get cat in if truthy found then found else Str default_icon)"

subsection \<open>A runtime to run the model: exact decimals\<close>

text \<open>
  The instance below stands for the runtime on inputs where a double behaves like the
  number it denotes. A number is not-a-number, an infinity with its sign
  (\<open>True\<close> for negative), or a finite value kept as an exact rational. It leaves out
  what doubles add to that: rounding to 53 bits, overflow to infinity, and the
  negative zero (which is \<^verbatim>\<open>===\<close> to zero and adds like zero). Which texts
  \<^verbatim>\<open>parseFloat\<close> reads as a number does not depend on any of these.
\<close>

datatype decimal = NaN | Infinity bool | Finite rat

text \<open>
  The white space of ECMAScript (WhiteSpace and LineTerminator), each code point as the
  bytes of its UTF-8 encoding: U+0009 to U+000D, U+0020, U+00A0, U+1680, U+2000 to
  U+200A, U+2028, U+2029, U+202F, U+205F, U+3000 and U+FEFF.
\<close>

definition white_space :: "string list" where
  "white_space =
     [[CHR 0x09], [CHR 0x0A], [CHR 0x0B], [CHR 0x0C], [CHR 0x0D], [CHR 0x20],
      [CHR 0xC2, CHR 0xA0],
      [CHR 0xE1, CHR 0x9A, CHR 0x80],
      [CHR 0xE2, CHR 0x80, CHR 0x80], [CHR 0xE2, CHR 0x80, CHR 0x81],
      [CHR 0xE2, CHR 0x80, CHR 0x82], [CHR 0xE2, CHR 0x80, CHR 0x83],
      [CHR 0xE2, CHR 0x80, CHR 0x84], [CHR 0xE2, CHR 0x80, CHR 0x85],
      [CHR 0xE2, CHR 0x80, CHR 0x86], [CHR 0xE2, CHR 0x80, CHR 0x87],
      [CHR 0xE2, CHR 0x80, CHR 0x88], [CHR 0xE2, CHR 0x80, CHR 0x89],
      [CHR 0xE2, CHR 0x80, CHR 0x8A],
      [CHR 0xE2, CHR 0x80, CHR 0xA8], [CHR 0xE2, CHR 0x80, CHR 0xA9],
      [CHR 0xE2, CHR 0x80, CHR 0xAF],
      [CHR 0xE2, CHR 0x81, CHR 0x9F],
      [CHR 0xE3, CHR 0x80, CHR 0x80],
      [CHR 0xEF, CHR 0xBB, CHR 0xBF]]"

text \<open>
  Drop from the front of a text every leading occurrence of one of the given sequences
  (of one, two or three bytes).
\<close>

fun skip_any :: "string list \<Rightarrow> string \<Rightarrow> string" where
  "skip_any ws [] = []"
| "skip_any ws (c # cs) =
     (if [c] \<in> set ws then skip_any ws cs
      else if c # take 1 cs \<in> set ws then skip_any ws (drop 1 cs)
      else if c # take 2 cs \<in> set ws then skip_any ws (drop 2 cs)
      else c # cs)"

definition is_digit :: "char \<Rightarrow> bool" where
  "is_digit c = (c \<in> set ''0123456789'')"

definition digits_value :: "string \<Rightarrow> nat" where
  "digits_value ds = foldl (\<lambda>n c. 10 * n + (of_char c - 48)) 0 ds"

text \<open>\<open>x\<close> times ten to the power \<open>k\<close>.\<close>

definition scale10 :: "rat \<Rightarrow> int \<Rightarrow> rat" where
  "scale10 x k = (if 0 \<le> k then x * 10 ^ nat k else x / 10 ^ nat (- k))"

text \<open>
  The exponent part at the head of \<open>s\<close>, if there is one: \<^verbatim>\<open>e\<close> or \<^verbatim>\<open>E\<close>, an
  optional sign, and at least one digit. Without one the exponent is 0.
\<close>

definition exponent_part :: "string \<Rightarrow> int" where
  "exponent_part s =
     (case s of
        [] \<Rightarrow> 0
      | e # r \<Rightarrow>
          if e = CHR ''e'' \<or> e = CHR ''E'' then
            (let negative = (take 1 r = ''-'');
                 r' = (if take 1 r = ''-'' \<or> take 1 r = ''+'' then drop 1 r else r);
                 ds = takeWhile is_digit r'
             in if ds = [] then 0
                else if negative then - int (digits_value ds) else int (digits_value ds))
          else 0)"

text \<open>
  \<^verbatim>\<open>parseFloat\<close>: skip leading white space, then read the longest prefix that is a
  decimal literal (a sign, then \<^verbatim>\<open>Infinity\<close>, or digits with an optional fraction
  and exponent, or a fraction starting with the point); what follows is ignored. When
  no prefix is a literal the result is not-a-number.
\<close>

definition decimal_parseFloat :: "string \<Rightarrow> decimal" where
  "decimal_parseFloat input =
     (let s = skip_any white_space input;
          negative = (take 1 s = ''-'');
          s1 = (if take 1 s = ''-'' \<or> take 1 s = ''+'' then drop 1 s else s)
      in if take 8 s1 = ''Infinity'' then Infinity negative
         else
           let ip = takeWhile is_digit s1;
               r1 = dropWhile is_digit s1;
               fp = (if take 1 r1 = ''.'' then takeWhile is_digit (drop 1 r1) else []);
               r2 = (if take 1 r1 = ''.'' then dropWhile is_digit (drop 1 r1) else r1)
           in if ip = [] \<and> fp = [] then NaN
              else
                let magnitude =
                      scale10 (of_nat (digits_value (ip @ fp)))
                        (exponent_part r2 - int (length fp))
                in Finite (if negative then - magnitude else magnitude))"

definition decimal_isNaN :: "decimal \<Rightarrow> bool" where
  "decimal_isNaN x = (x = NaN)"

fun decimal_plus :: "decimal \<Rightarrow> decimal \<Rightarrow> decimal" where
  "decimal_plus NaN y = NaN"
| "decimal_plus x NaN = NaN"
| "decimal_plus (Infinity a) (Infinity b) = (if a = b then Infinity a else NaN)"
| "decimal_plus (Infinity a) (Finite y) = Infinity a"
| "decimal_plus (Finite x) (Infinity b) = Infinity b"
| "decimal_plus (Finite x) (Finite y) = Finite (x + y)"

text \<open>Not-a-number is not \<^verbatim>\<open>===\<close> to anything, itself included.\<close>

definition decimal_strict_eq :: "decimal \<Rightarrow> decimal \<Rightarrow> bool" where
  "decimal_strict_eq x y = (x \<noteq> NaN \<and> x = y)"

definition decimal_finite :: "decimal \<Rightarrow> bool" where
  "decimal_finite x = (case x of Finite v \<Rightarrow> True | _ \<Rightarrow> False)"

text \<open>\<^verbatim>\<open>trim\<close>: white space is dropped at the front and, read backwards, at the end.\<close>

definition utf8_trim :: "string \<Rightarrow> string" where
  "utf8_trim s = rev (skip_any (map rev white_space) (rev (skip_any white_space s)))"

definition decimal_runtime :: "decimal runtime" where
  "decimal_runtime =
     \<lparr>num_zero = Finite 0, num_plus = decimal_plus, num_strict_eq = decimal_strict_eq,
      parseFloat = decimal_parseFloat, isNaN = decimal_isNaN, num_finite = decimal_finite,
      trim = utf8_trim\<rparr>"

subsection \<open>Texts that are numbers, and texts that start with one\<close>

text \<open>
  A text starts with a number when, after leading white space and one optional sign,
  it goes on with a digit, with a point and a digit, or with \<^verbatim>\<open>Infinity\<close>.
\<close>

definition starts_with_number :: "string \<Rightarrow> bool" where
  "starts_with_number text =
     (let t = skip_any white_space text;
          u = (if take 1 t = ''-'' \<or> take 1 t = ''+'' then drop 1 t else t)
      in take 8 u = ''Infinity'' \<or>
         (case u of
            [] \<Rightarrow> False
          | c # r \<Rightarrow>
              is_digit c \<or>
              (c = CHR ''.'' \<and> (case r of [] \<Rightarrow> False | d # r' \<Rightarrow> is_digit d))))"


subsection \<open>Outcomes\<close>

text \<open>
  A remote call has failed when the promise rejected or the status was not 2xx
  (\<^verbatim>\<open>!response.ok\<close>).
\<close>

fun failed :: "'a fetch_result \<Rightarrow> bool" where
  "failed (NetworkError message) = True"
| "failed (HttpResponse ok body) = (\<not> ok)"

text \<open>
  Two states hold the same data when they agree on everything but the \<^verbatim>\<open>loading\<close>
  flag: the list, the three input fields, the dialog flag and the filter.
\<close>

definition same_data :: "'n state \<Rightarrow> 'n state \<Rightarrow> bool" where
  "same_data st st' =
     (expenses st' = expenses st \<and> amount st' = amount st \<and> description st' = description st \<and>
      category st' = category st \<and> showAddModal st' = showAddModal st \<and>
      selectedFilter st' = selectedFilter st)"

subsection \<open>Example data\<close>

definition lunch :: "decimal expense" where
  "lunch =
     \<lparr>expense_id = IdNumber (Finite 1), expense_amount = Finite (25 / 2),
      expense_description = ''Lunch'', expense_category = ''Food'',
      expense_date = ''2024-05-01T12:00:00.000Z''\<rparr>"

definition power_bill :: "decimal expense" where
  "power_bill =
     \<lparr>expense_id = IdNumber (Finite 2), expense_amount = Finite 40,
      expense_description = ''Power'', expense_category = ''Bills'',
      expense_date = ''2024-05-02T08:30:00.000Z''\<rparr>"

text \<open>A record that carries the id of \<open>lunch\<close> again.\<close>

definition snack :: "decimal expense" where
  "snack =
     \<lparr>expense_id = IdNumber (Finite 1), expense_amount = Finite 3,
      expense_description = ''Snack'', expense_category = ''Food'',
      expense_date = ''2024-05-03T16:00:00.000Z''\<rparr>"

definition coffee :: "decimal expense" where
  "coffee =
     \<lparr>expense_id = IdNumber (Finite 3), expense_amount = Finite 20,
      expense_description = ''Coffee'', expense_category = ''Food'',
      expense_date = ''2024-05-04T09:15:00.000Z''\<rparr>"

text \<open>The add dialog is open and filled in; two records are listed.\<close>

definition example_state :: "decimal state" where
  "example_state =
     \<lparr>expenses = [lunch, power_bill], amount = ''20'', description = ''Coffee'',
      category = ''Food'', showAddModal = True, selectedFilter = ''All'', loading = False\<rparr>"

definition duplicate_state :: "decimal state" where
  "duplicate_state =
     \<lparr>expenses = [lunch, power_bill, snack], amount = [], description = [],
      category = ''Food'', showAddModal = False, selectedFilter = ''All'', loading = False\<rparr>"

section \<open>Properties\<close>

subsection \<open>Auxiliary facts\<close>

lemmas decimal_defs =
  decimal_runtime_def decimal_parseFloat_def decimal_isNaN_def decimal_finite_def white_space_def
  is_digit_def digits_value_def scale10_def exponent_part_def utf8_trim_def decimal_strict_eq_def

lemmas icon_defs =
  getCategoryIcon_def icons_get_def icons_def Object_prototype_def default_icon_def

lemma foldl_amounts:
  "foldl (\<lambda>total expense. num_plus R total (expense_amount expense)) z xs
     = foldl (num_plus R) z (map expense_amount xs)"
  by (induction xs arbitrary: z) simp_all

lemma categories_not_All: "c \<in> set categories \<Longrightarrow> c \<noteq> ''All''"
  by (auto simp: categories_def)

lemma getFilteredExpenses_All:
  "getFilteredExpenses (st\<lparr>selectedFilter := ''All''\<rparr>) = expenses st"
  by (simp add: getFilteredExpenses_def)

lemma getFilteredExpenses_category:
  "c \<noteq> ''All'' \<Longrightarrow>
   getFilteredExpenses (st\<lparr>selectedFilter := c\<rparr>)
     = filter (\<lambda>e. expense_category e = c) (expenses st)"
  by (simp add: getFilteredExpenses_def)

text \<open>
  Where the numbers of the runtime form a monoid under \<open>+\<close>, the fold of
  \<^verbatim>\<open>getTotalAmount\<close> is the sum of the list.
\<close>

lemma foldl_plus_sum_list: "foldl (+) z xs = z + sum_list (xs :: 'a::monoid_add list)"
  by (induction xs arbitrary: z) (simp_all add: add.assoc)

lemma getTotalAmount_sum_list:
  fixes R :: "'a::monoid_add runtime"
  assumes "num_plus R = (+)" and "num_zero R = 0"
  shows "getTotalAmount R st = sum_list (map expense_amount (getFilteredExpenses st))"
proof -
  have "getTotalAmount R st
      = foldl (num_plus R) (num_zero R) (map expense_amount (getFilteredExpenses st))"
    by (simp add: getTotalAmount_def foldl_amounts)
  then show ?thesis
    by (simp add: assms foldl_plus_sum_list)
qed

text \<open>
  The texts that \<^verbatim>\<open>parseFloat\<close> does not read as a number are those that do not
  start with one.
\<close>

lemma decimal_parseFloat_NaN:
  "decimal_isNaN (decimal_parseFloat text) = (\<not> starts_with_number text)"
  by (auto simp: decimal_parseFloat_def decimal_isNaN_def starts_with_number_def Let_def
      split: list.splits)


lemma JSON_stringify_not_finite:
  "\<not> num_finite R (new_amount newExpense) \<Longrightarrow>
   JSON_stringify R newExpense
     = JObject
         [(''amount'', JNull),
          (''description'', JString (new_description newExpense)),
          (''category'', JString (new_category newExpense)),
          (''date'', JString (new_date newExpense))]"
  by (simp add: JSON_stringify_def)

lemma addExpense_invalid:
  assumes "amount st = [] \<or> description st = [] \<or> isNaN R (parseFloat R (amount st))"
  shows "addExpense R now response st
     = (st, [Alert ''Error''
               (if amount st = [] \<or> description st = [] then ''Please fill in all fields''
                else ''Please enter a valid amount'')])"
  using assms by (auto simp: addExpense_def)

lemma addExpense_valid:
  assumes "amount st \<noteq> []" "description st \<noteq> []" "\<not> isNaN R (parseFloat R (amount st))"
  shows "addExpense R now response st
     = (fst (catch_finally (st\<lparr>loading := True\<rparr>) (addExpense_try response (st\<lparr>loading := True\<rparr>))),
        Fetch (POST (API_BASE_URL @ ''/expenses'')
                 (JSON_stringify R
                    \<lparr>new_amount = parseFloat R (amount st), new_description = trim R (description st),
                  new_category = category st, new_date = now\<rparr>))
        # snd (catch_finally (st\<lparr>loading := True\<rparr>) (addExpense_try response (st\<lparr>loading := True\<rparr>))))"
  using assms by (simp add: addExpense_def Let_def split_beta)

lemma addExpense_success:
  assumes "amount st \<noteq> []" "description st \<noteq> []" "\<not> isNaN R (parseFloat R (amount st))"
  shows "addExpense R now (HttpResponse True (Inr savedExpense)) st
     = (st\<lparr>expenses := savedExpense # expenses st, amount := [], description := [],
            category := ''Food'', showAddModal := False, loading := False\<rparr>,
        [Fetch (POST (API_BASE_URL @ ''/expenses'')
                 (JSON_stringify R
                    \<lparr>new_amount = parseFloat R (amount st), new_description = trim R (description st),
                  new_category = category st, new_date = now\<rparr>))])"
  by (simp add: addExpense_valid [OF assms] addExpense_try_def catch_finally_def)

lemma addExpense_failure:
  assumes "amount st \<noteq> []" "description st \<noteq> []" "\<not> isNaN R (parseFloat R (amount st))"
    and "failed response"
  shows "\<exists>message. addExpense R now response st
     = (st\<lparr>loading := False\<rparr>,
        [Fetch (POST (API_BASE_URL @ ''/expenses'')
                 (JSON_stringify R
                    \<lparr>new_amount = parseFloat R (amount st), new_description = trim R (description st),
                  new_category = category st, new_date = now\<rparr>)),
         Alert ''Error'' message])"
  using \<open>failed response\<close>
  by (cases response)
    (simp_all add: addExpense_valid [OF assms(1-3)] addExpense_try_def catch_finally_def)

text \<open>
  An amount that starts with a number passes validation, whatever follows the number:
  the request is sent.
\<close>

lemma addExpense_accepts:
  assumes "amount st \<noteq> []" "description st \<noteq> []" "starts_with_number (amount st)"
  shows "\<exists>shown. snd (addExpense decimal_runtime now response st)
     = Fetch (POST (API_BASE_URL @ ''/expenses'')
                (JSON_stringify decimal_runtime
                   \<lparr>new_amount = decimal_parseFloat (amount st),
                    new_description = utf8_trim (description st),
                    new_category = category st, new_date = now\<rparr>)) # shown"
proof -
  have "\<not> isNaN decimal_runtime (parseFloat decimal_runtime (amount st))"
    using assms(3) by (simp add: decimal_runtime_def decimal_parseFloat_NaN)
  from addExpense_valid [OF assms(1,2) this, of now response] show ?thesis
    by (simp add: decimal_runtime_def)
qed

lemma fetchExpenses_ok:
  "fetchExpenses (HttpResponse True (Inr data)) st
     = (st\<lparr>expenses := data, loading := False\<rparr>, [Fetch (GET (API_BASE_URL @ ''/expenses''))])"
  by (simp add: fetchExpenses_def fetchExpenses_try_def catch_finally_def)

lemma fetchExpenses_failed:
  "failed response \<Longrightarrow>
   \<exists>message. fetchExpenses response st
     = (st\<lparr>loading := False\<rparr>,
        [Fetch (GET (API_BASE_URL @ ''/expenses'')), Alert ''Error'' message])"
  by (cases response) (simp_all add: fetchExpenses_def fetchExpenses_try_def catch_finally_def)

lemma deleteExpenseAPI_ok:
  "deleteExpenseAPI R (HttpResponse True body) ident st
     = (st\<lparr>expenses := filter (\<lambda>expense. \<not> strict_eq R (expense_id expense) ident) (expenses st),
            loading := False\<rparr>,
        [Fetch (DELETE (API_BASE_URL @ ''/expenses/'') ident)])"
  by (simp add: deleteExpenseAPI_def deleteExpenseAPI_try_def catch_finally_def)

lemma deleteExpenseAPI_failed:
  "failed response \<Longrightarrow>
   \<exists>message. deleteExpenseAPI R response ident st
     = (st\<lparr>loading := False\<rparr>,
        [Fetch (DELETE (API_BASE_URL @ ''/expenses/'') ident), Alert ''Error'' message])"
  by (cases response)
    (simp_all add: deleteExpenseAPI_def deleteExpenseAPI_try_def catch_finally_def)

text \<open>Unless Delete is pressed, \<^verbatim>\<open>deleteExpense\<close> sends nothing and changes nothing.\<close>

lemma deleteExpense_not_confirmed:
  "pressed \<noteq> PressDelete \<Longrightarrow>
   deleteExpense R pressed response ident st
     = (st, [AlertButtons ''Delete Expense'' ''Are you sure you want to delete this expense?''
               [''Cancel'', ''Delete'']])"
  by (cases pressed) (simp_all add: deleteExpense_def)

lemma same_data_loading: "same_data st (st\<lparr>loading := b\<rparr>)"
  by (simp add: same_data_def)

lemma same_data_refl: "same_data st st"
  by (simp add: same_data_def)

text \<open>
  A 2xx answer whose body does not parse is caught like a failure: the list is neither
  replaced nor extended.
\<close>

lemma unparsable_body_leaves_data:
  "same_data st (fst (fetchExpenses (HttpResponse True (Inl message)) st))"
  "same_data st (fst (addExpense R now (HttpResponse True (Inl message)) st))"
proof -
  show "same_data st (fst (fetchExpenses (HttpResponse True (Inl message)) st))"
    by (simp add: fetchExpenses_def fetchExpenses_try_def catch_finally_def same_data_def)
  show "same_data st (fst (addExpense R now (HttpResponse True (Inl message)) st))"
    by (simp add: addExpense_def addExpense_try_def catch_finally_def same_data_def)
qed

text \<open>
  What \<^verbatim>\<open>getCategoryIcon\<close> does give: a non-empty glyph for each of the seven
  categories, and the default glyph for every string that names neither a category nor
  a property of \<^verbatim>\<open>Object.prototype\<close>.
\<close>

lemma getCategoryIcon_categories:
  "cat \<in> set categories \<Longrightarrow> \<exists>glyph. getCategoryIcon cat = Str glyph \<and> glyph \<noteq> []"
  by (auto simp: categories_def icon_defs)

lemma getCategoryIcon_default:
  "cat \<notin> set categories \<Longrightarrow> cat \<notin> set Object_prototype \<Longrightarrow>
   getCategoryIcon cat = Str default_icon"
  by (simp add: categories_def icon_defs)

lemma getCategoryIcon_inherited:
  "cat \<in> set Object_prototype \<Longrightarrow> getCategoryIcon cat = Inherited cat"
  by (auto simp: icon_defs)

subsection \<open>The projections\<close>

text \<open>
  Claim C1. For every list of records and every filter, the total is the sum of the
  amounts of the filtered view, added from the left starting at 0 as \<^verbatim>\<open>reduce\<close> does.
  With the filter \<^verbatim>\<open>All\<close> that is the sum over every record of the list; with a
  category \<open>c\<close> as filter (any string other than \<^verbatim>\<open>All\<close>, so each of the seven
  categories) it is the sum over exactly the records whose category is \<open>c\<close>; and when
  no record has the category \<open>c\<close> it is 0.
\<close>

theorem getTotalAmount_sum:
  "getTotalAmount R (st\<lparr>selectedFilter := f\<rparr>)
     = foldl (num_plus R) (num_zero R)
         (map expense_amount (getFilteredExpenses (st\<lparr>selectedFilter := f\<rparr>))) \<and>
   getTotalAmount R (st\<lparr>selectedFilter := ''All''\<rparr>)
     = foldl (num_plus R) (num_zero R) (map expense_amount (expenses st)) \<and>
   (c \<noteq> ''All'' \<longrightarrow>
      getTotalAmount R (st\<lparr>selectedFilter := c\<rparr>)
        = foldl (num_plus R) (num_zero R)
            (map expense_amount (filter (\<lambda>e. expense_category e = c) (expenses st))) \<and>
      (c \<notin> expense_category ` set (expenses st) \<longrightarrow>
         getTotalAmount R (st\<lparr>selectedFilter := c\<rparr>) = num_zero R))"
proof -
  have total: "getTotalAmount R s
      = foldl (num_plus R) (num_zero R) (map expense_amount (getFilteredExpenses s))"
    for s :: "'a state"
    by (simp add: getTotalAmount_def foldl_amounts)
  have none: "filter (\<lambda>e. expense_category e = c) (expenses st) = []"
    if "c \<notin> expense_category ` set (expenses st)"
    using that by (auto simp: filter_empty_conv)
  show ?thesis
    by (auto simp: total getFilteredExpenses_All getFilteredExpenses_category none)
qed

theorem getTotalAmount_sum_witness:
  "''Food'' \<noteq> ''All'' \<and> ''Health'' \<noteq> ''All'' \<and>
   ''Health'' \<notin> expense_category ` set (expenses example_state) \<and>
   getTotalAmount decimal_runtime (example_state\<lparr>selectedFilter := ''All''\<rparr>) = Finite (105 / 2) \<and>
   getTotalAmount decimal_runtime (example_state\<lparr>selectedFilter := ''Food''\<rparr>) = Finite (25 / 2) \<and>
   getTotalAmount decimal_runtime (example_state\<lparr>selectedFilter := ''Health''\<rparr>) = Finite 0"
  using
    getTotalAmount_sum [where R = decimal_runtime and st = example_state and f = "''All''"
      and c = "''Food''"]
    getTotalAmount_sum [where R = decimal_runtime and st = example_state and f = "''All''"
      and c = "''Health''"]
  by (simp add: example_state_def lunch_def power_bill_def decimal_runtime_def)

text \<open>
  Claim C2. With the filter \<^verbatim>\<open>All\<close> the filtered view is the whole list, unchanged
  and in order. With a category \<open>c\<close> as filter (any string other than \<^verbatim>\<open>All\<close>, so
  each of the seven categories) it holds exactly the records whose category is \<open>c\<close>,
  in the order they have in the list: it is a subsequence of the list.
\<close>

theorem getFilteredExpenses_view:
  "getFilteredExpenses (st\<lparr>selectedFilter := ''All''\<rparr>) = expenses st \<and>
   (c \<noteq> ''All'' \<longrightarrow>
      getFilteredExpenses (st\<lparr>selectedFilter := c\<rparr>)
        = filter (\<lambda>e. expense_category e = c) (expenses st) \<and>
      subseq (getFilteredExpenses (st\<lparr>selectedFilter := c\<rparr>)) (expenses st) \<and>
      set (getFilteredExpenses (st\<lparr>selectedFilter := c\<rparr>))
        = {e \<in> set (expenses st). expense_category e = c})"
  by (simp add: getFilteredExpenses_All getFilteredExpenses_category)

theorem getFilteredExpenses_view_witness:
  "''Food'' \<noteq> ''All'' \<and>
   getFilteredExpenses (example_state\<lparr>selectedFilter := ''All''\<rparr>) = [lunch, power_bill] \<and>
   getFilteredExpenses (example_state\<lparr>selectedFilter := ''Food''\<rparr>) = [lunch]"
  using getFilteredExpenses_view [where st = example_state and c = "''Food''"]
  by (simp add: example_state_def lunch_def power_bill_def)

subsection \<open>Adding an expense\<close>







text \<open>
  Claim C8. After a successful create the selected category is \<^verbatim>\<open>Food\<close> again,
  whatever it was before.
\<close>

theorem addExpense_resets_category:
  assumes "amount st \<noteq> []" "description st \<noteq> []" "\<not> isNaN R (parseFloat R (amount st))"
  shows "category (fst (addExpense R now (HttpResponse True (Inr savedExpense)) st)) = ''Food''"
  by (simp add: addExpense_success [OF assms])

theorem addExpense_resets_category_witness:
  "amount (example_state\<lparr>category := ''Bills''\<rparr>) \<noteq> [] \<and>
   description (example_state\<lparr>category := ''Bills''\<rparr>) \<noteq> [] \<and>
   \<not> isNaN decimal_runtime (parseFloat decimal_runtime (amount (example_state\<lparr>category := ''Bills''\<rparr>))) \<and>
   category (example_state\<lparr>category := ''Bills''\<rparr>) = ''Bills'' \<and>
   category (fst (addExpense decimal_runtime ''2024-05-04T09:15:00.000Z''
                    (HttpResponse True (Inr coffee)) (example_state\<lparr>category := ''Bills''\<rparr>))) = ''Food''"
proof -
  let ?st = "example_state\<lparr>category := ''Bills''\<rparr>"
  have h: "amount ?st \<noteq> []" "description ?st \<noteq> []"
    "\<not> isNaN decimal_runtime (parseFloat decimal_runtime (amount ?st))"
    by (simp_all add: example_state_def decimal_defs)
  show ?thesis
    using h addExpense_resets_category [OF h, of "''2024-05-04T09:15:00.000Z''" coffee]
    by simp
qed

subsection \<open>Deleting an expense\<close>

text \<open>
  Claim C5. After a successful delete of an id the list holds exactly the prior records
  whose id is not strictly equal to it, in their prior order; no other record is removed.
  When the delete fails the list is as it was.
\<close>

theorem deleteExpenseAPI_removes_by_id:
  "expenses (fst (deleteExpenseAPI R (HttpResponse True body) ident st))
     = filter (\<lambda>expense. \<not> strict_eq R (expense_id expense) ident) (expenses st) \<and>
   subseq (expenses (fst (deleteExpenseAPI R (HttpResponse True body) ident st))) (expenses st) \<and>
   (\<forall>expense. expense \<in> set (expenses (fst (deleteExpenseAPI R (HttpResponse True body) ident st)))
        \<longleftrightarrow> expense \<in> set (expenses st) \<and> \<not> strict_eq R (expense_id expense) ident) \<and>
   (failed response \<longrightarrow> expenses (fst (deleteExpenseAPI R response ident st)) = expenses st)"
proof -
  have "expenses (fst (deleteExpenseAPI R response ident st)) = expenses st" if "failed response"
    using deleteExpenseAPI_failed [OF that, of R ident st] by auto
  then show ?thesis
    by (simp add: deleteExpenseAPI_ok)
qed

theorem deleteExpenseAPI_removes_by_id_witness:
  "failed (HttpResponse False (Inl ''Unexpected token'') :: unit fetch_result) \<and>
   expenses (fst (deleteExpenseAPI decimal_runtime (HttpResponse True (Inr ())) (IdNumber (Finite 2))
                    example_state)) = [lunch] \<and>
   expenses (fst (deleteExpenseAPI decimal_runtime (HttpResponse False (Inl ''Unexpected token'') :: unit fetch_result)
                    (IdNumber (Finite 2)) example_state)) = [lunch, power_bill]"
  using deleteExpenseAPI_removes_by_id [where R = decimal_runtime and body = "Inr ()" and st = example_state
      and ident = "IdNumber (Finite 2)" and response = "HttpResponse False (Inl ''Unexpected token'') :: unit fetch_result"]
  by (simp add: example_state_def lunch_def power_bill_def decimal_defs)

text \<open>
  Claim C9. A successful delete removes every record whose id is strictly equal to the
  given one: none of them is left, and the list gets shorter by their number. So two
  records are removed when two carry the id, and exactly one record is removed if and
  only if exactly one record of the list carries the id.
\<close>

theorem deleteExpenseAPI_removes_every_match:
  "(\<forall>expense \<in> set (expenses (fst (deleteExpenseAPI R (HttpResponse True body) ident st))).
      \<not> strict_eq R (expense_id expense) ident) \<and>
   length (expenses (fst (deleteExpenseAPI R (HttpResponse True body) ident st)))
     + length (filter (\<lambda>expense. strict_eq R (expense_id expense) ident) (expenses st))
     = length (expenses st) \<and>
   (length (expenses st) = Suc (length (expenses (fst (deleteExpenseAPI R (HttpResponse True body) ident st))))
      \<longleftrightarrow> length (filter (\<lambda>expense. strict_eq R (expense_id expense) ident) (expenses st)) = 1)"
proof -
  let ?P = "\<lambda>expense. strict_eq R (expense_id expense) ident"
  have "length (filter (\<lambda>e. \<not> ?P e) (expenses st)) + length (filter ?P (expenses st)) = length (expenses st)"
    using sum_length_filter_compl [of ?P "expenses st"] by simp
  then show ?thesis
    by (auto simp: deleteExpenseAPI_ok)
qed

theorem deleteExpenseAPI_removes_every_match_witness:
  "expenses duplicate_state = [lunch, power_bill, snack] \<and>
   expense_id lunch = IdNumber (Finite 1) \<and> expense_id snack = IdNumber (Finite 1) \<and>
   expenses (fst (deleteExpenseAPI decimal_runtime (HttpResponse True (Inr ())) (IdNumber (Finite 1))
                    duplicate_state)) = [power_bill] \<and>
   length (filter (\<lambda>expense. strict_eq decimal_runtime (expense_id expense) (IdNumber (Finite 1)))
             (expenses duplicate_state)) = 2"
  using deleteExpenseAPI_removes_every_match [where R = decimal_runtime and body = "Inr ()"
      and st = duplicate_state and ident = "IdNumber (Finite 1)"]
  by (simp add: duplicate_state_def lunch_def power_bill_def snack_def decimal_defs deleteExpenseAPI_ok)

subsection \<open>Failure of a remote call\<close>

text \<open>
  Claim C6. Loading, submitting and removing change the data of the state only after a
  confirmed success: from every state, when the remote call fails (the network fails or
  the status is not 2xx) the list, the input fields, the dialog flag and the filter are
  what they were before the operation began.
\<close>

theorem failure_leaves_data:
  "(failed fetched \<longrightarrow> same_data st (fst (fetchExpenses fetched st))) \<and>
   (failed posted \<longrightarrow> same_data st (fst (addExpense R now posted st))) \<and>
   (failed deleted \<longrightarrow> same_data st (fst (deleteExpenseAPI R deleted ident st)) \<and>
                        same_data st (fst (deleteExpense R pressed deleted ident st)))"
proof -
  have load: "same_data st (fst (fetchExpenses fetched st))" if "failed fetched"
    using fetchExpenses_failed [OF that, of st] by (auto simp: same_data_loading)
  have submit: "same_data st (fst (addExpense R now posted st))" if "failed posted"
  proof (cases "amount st = [] \<or> description st = [] \<or> isNaN R (parseFloat R (amount st))")
    case True
    then show ?thesis
      by (simp add: addExpense_invalid same_data_refl)
  next
    case False
    then show ?thesis
      using addExpense_failure [OF _ _ _ that, of st R now] by (auto simp: same_data_loading)
  qed
  have api: "same_data st (fst (deleteExpenseAPI R deleted ident st))" if "failed deleted"
    using deleteExpenseAPI_failed [OF that, of R ident st] by (auto simp: same_data_loading)
  have remove: "same_data st (fst (deleteExpense R pressed deleted ident st))" if "failed deleted"
    using api [OF that] by (cases pressed) (simp_all add: deleteExpense_def split_beta same_data_refl)
  show ?thesis
    using load submit api remove by blast
qed

theorem failure_leaves_data_witness:
  "failed (NetworkError ''Network request failed'' :: decimal expense list fetch_result) \<and>
   failed (HttpResponse False (Inr coffee)) \<and>
   failed (HttpResponse False (Inl ''Unexpected token'') :: unit fetch_result) \<and>
   fst (fetchExpenses (NetworkError ''Network request failed'') example_state) = example_state \<and>
   fst (addExpense decimal_runtime ''2024-05-04T09:15:00.000Z'' (HttpResponse False (Inr coffee))
          example_state) = example_state \<and>
   fst (deleteExpense decimal_runtime PressDelete (HttpResponse False (Inl ''Unexpected token'') :: unit fetch_result)
          (IdNumber (Finite 2)) example_state) = example_state"
proof -
  have eq: "st' = example_state" if "same_data example_state st'" "loading st' = False" for st'
    using that by (cases st') (simp add: same_data_def example_state_def)
  have l: "loading (fst (fetchExpenses (NetworkError ''Network request failed'') example_state)) = False"
    "loading (fst (addExpense decimal_runtime ''2024-05-04T09:15:00.000Z'' (HttpResponse False (Inr coffee))
          example_state)) = False"
    "loading (fst (deleteExpense decimal_runtime PressDelete (HttpResponse False (Inl ''Unexpected token'') :: unit fetch_result)
          (IdNumber (Finite 2)) example_state)) = False"
    by (simp_all add: fetchExpenses_def fetchExpenses_try_def catch_finally_def addExpense_def
        addExpense_try_def deleteExpense_def deleteExpenseAPI_def deleteExpenseAPI_try_def
        example_state_def decimal_defs)
  show ?thesis
    using failure_leaves_data [where fetched = "NetworkError ''Network request failed''"
        and posted = "HttpResponse False (Inr coffee)"
        and deleted = "HttpResponse False (Inl ''Unexpected token'') :: unit fetch_result"
        and st = example_state and R = decimal_runtime and now = "''2024-05-04T09:15:00.000Z''"
        and ident = "IdNumber (Finite 2)" and pressed = PressDelete]
    by (simp add: eq l)
qed

subsection \<open>Icons\<close>

text \<open>
  Claim C7 asks for the default glyph on every string other than the seven categories.
  The string \<^verbatim>\<open>constructor\<close> is not a category, and \<^verbatim>\<open>getCategoryIcon\<close> does not give
  the default glyph for it: the property read finds the function inherited from
  \<^verbatim>\<open>Object.prototype\<close>, which is truthy, so the default on the right of \<^verbatim>\<open>||\<close> is
  not taken and the function is returned.
\<close>

theorem getCategoryIcon_constructor:
  "''constructor'' \<notin> set categories \<and>
   getCategoryIcon ''constructor'' = Inherited ''constructor'' \<and>
   getCategoryIcon ''constructor'' \<noteq> Str default_icon"
  by (simp add: categories_def icon_defs)

text \<open>
  Claim C10. \<^verbatim>\<open>getCategoryIcon\<close> is not injective: the glyph of the category
  \<^verbatim>\<open>Other\<close> is the default glyph, so the category \<^verbatim>\<open>Other\<close> and the string
  \<^verbatim>\<open>Misc\<close>, which is not a category, get the same value.
\<close>

theorem getCategoryIcon_not_injective:
  "''Other'' \<in> set categories \<and> ''Misc'' \<notin> set categories \<and>
   getCategoryIcon ''Other'' = getCategoryIcon ''Misc'' \<and>
   getCategoryIcon ''Other'' = Str default_icon \<and>
   \<not> inj getCategoryIcon"
proof -
  have same: "getCategoryIcon ''Other'' = getCategoryIcon ''Misc''"
    by (simp add: icon_defs)
  have "\<not> inj getCategoryIcon"
  proof
    assume "inj getCategoryIcon"
    then have "''Other'' = ''Misc''"
      using same by (rule injD)
    then show False
      by simp
  qed
  then show ?thesis
    by (simp add: categories_def icon_defs)
qed

end
